theory Spec2Isabelle
  imports Main
begin

section \<open>smmap/util.py: page alignment, memory windows, mapped regions\<close>

text \<open>
  The module is Python 2 code (\<^verbatim>\<open>sys.maxint\<close>, \<^verbatim>\<open>buffer\<close>). Its integers are
  unbounded and are modelled as \<^typ>\<open>int\<close>; \<^verbatim>\<open>/\<close> on two integers is floor
  division there, which is \<open>div\<close> on \<^typ>\<open>int\<close>. Byte strings are \<^typ>\<open>string\<close>.

  \<^verbatim>\<open>PAGESIZE\<close> is imported from the \<^verbatim>\<open>mmap\<close> module; it is a positive constant of
  the platform and is taken as a parameter of every function that reads it.
\<close>

subsection \<open>Utilities\<close>

text \<open>
  \<^verbatim>\<open>
  def align_to_page(num, round_up):
      res = (num / PAGESIZE) * PAGESIZE;
      if round_up and (res != num):
          res += PAGESIZE;
      return res;
  \<close>
\<close>

definition align_to_page :: "int \<Rightarrow> int \<Rightarrow> bool \<Rightarrow> int" where
  "align_to_page PAGESIZE num round_up =
     (let res = (num div PAGESIZE) * PAGESIZE
      in if round_up \<and> res \<noteq> num then res + PAGESIZE else res)"

text \<open>\<^verbatim>\<open>is_64_bit\<close> compares \<^verbatim>\<open>sys.maxint\<close>, a parameter here, with \<^verbatim>\<open>(1<<32) - 1\<close>.\<close>

definition is_64_bit :: "int \<Rightarrow> bool" where
  "is_64_bit maxint = (maxint > 2 ^ 32 - 1)"

subsection \<open>MemoryWindow\<close>

text \<open>
  The class has the slots \<^verbatim>\<open>ofs\<close> and \<^verbatim>\<open>size\<close>; the fields are \<open>w_ofs\<close> and
  \<open>w_size\<close>. A method that assigns to \<^verbatim>\<open>self\<close> returns the updated window.
\<close>

record MemoryWindow =
  w_ofs :: int
  w_size :: int

definition MemoryWindow_init :: "int \<Rightarrow> int \<Rightarrow> MemoryWindow" where
  "MemoryWindow_init offset sz = \<lparr>w_ofs = offset, w_size = sz\<rparr>"

definition ofs_end :: "MemoryWindow \<Rightarrow> int" where
  "ofs_end self = w_ofs self + w_size self"

text \<open>
  \<^verbatim>\<open>
  def align(self):
      nofs = align_to_page(self.ofs, 0)
      self.size += self.ofs - nofs
      self.ofs = nofs
      self.size = align_to_page(self.size, 1)
  \<close>
\<close>

definition align :: "int \<Rightarrow> MemoryWindow \<Rightarrow> MemoryWindow" where
  "align PAGESIZE self =
     (let nofs = align_to_page PAGESIZE (w_ofs self) False;
          s1 = self\<lparr>w_size := w_size self + (w_ofs self - nofs)\<rparr>;
          s2 = s1\<lparr>w_ofs := nofs\<rparr>
      in s2\<lparr>w_size := align_to_page PAGESIZE (w_size s2) True\<rparr>)"

text \<open>
  \<^verbatim>\<open>
  def extend_left_to(self, window, max_size):
      rofs = self.ofs - window.ofs_end()
      nsize = rofs + self.size
      rofs -= nsize - min(nsize, max_size)
      self.ofs = self.ofs - rofs
      self.size += rofs
  \<close>
\<close>

definition extend_left_to :: "MemoryWindow \<Rightarrow> MemoryWindow \<Rightarrow> int \<Rightarrow> MemoryWindow" where
  "extend_left_to self window max_size =
     (let rofs = w_ofs self - ofs_end window;
          nsize = rofs + w_size self;
          rofs' = rofs - (nsize - min nsize max_size);
          s1 = self\<lparr>w_ofs := w_ofs self - rofs'\<rparr>
      in s1\<lparr>w_size := w_size s1 + rofs'\<rparr>)"

text \<open>
  \<^verbatim>\<open>
  def extend_right_to(self, window, max_size):
      self.size = min(self.size + (window.ofs - self.ofs_end()), max_size)
  \<close>
\<close>

definition extend_right_to :: "MemoryWindow \<Rightarrow> MemoryWindow \<Rightarrow> int \<Rightarrow> MemoryWindow" where
  "extend_right_to self window max_size =
     self\<lparr>w_size := min (w_size self + (w_ofs window - ofs_end self)) max_size\<rparr>"

subsection \<open>The operating system and the library calls of \<^verbatim>\<open>MappedRegion.__init__\<close>\<close>

text \<open>
  The constructor calls \<^verbatim>\<open>os.open\<close>, \<^verbatim>\<open>os.fstat\<close>, \<^verbatim>\<open>mmap.mmap\<close>, \<^verbatim>\<open>buffer\<close>
  and \<^verbatim>\<open>os.close\<close>. They belong to the Python runtime, not to this module, and are
  modelled here by their documented behaviour over an explicit state of the world:
  the files (path to content), the table of open descriptors, the live mappings
  (path, offset, length) and the address space still available for mappings.
  A raised exception is the \<open>Inl\<close> value of a result.
\<close>

datatype error = OSError | OverflowError | ValueError | EnvironmentError

record world =
  files :: "string \<Rightarrow> string option"
  fdtab :: "nat \<Rightarrow> string option"
  next_fd :: nat
  mappings :: "(string \<times> int \<times> int) list"
  vm_avail :: int

text \<open>\<^verbatim>\<open>os.open(path, os.O_RDONLY|...|flags)\<close>: \<^verbatim>\<open>OSError\<close> when there is no such file.\<close>

definition os_open :: "world \<Rightarrow> string \<Rightarrow> int \<Rightarrow> (error + nat) \<times> world" where
  "os_open w path flags =
     (case files w path of
        None \<Rightarrow> (Inl OSError, w)
      | Some content \<Rightarrow>
          (Inr (next_fd w),
           w\<lparr>fdtab := (fdtab w)(next_fd w \<mapsto> path), next_fd := next_fd w + 1\<rparr>))"

definition os_close :: "world \<Rightarrow> nat \<Rightarrow> world" where
  "os_close w fd = w\<lparr>fdtab := (fdtab w)(fd := None)\<rparr>"

text \<open>\<^verbatim>\<open>os.fstat(fd).st_size\<close> and \<^verbatim>\<open>os.stat(path).st_size\<close>.\<close>

definition os_stat_size :: "world \<Rightarrow> string \<Rightarrow> error + int" where
  "os_stat_size w path =
     (case files w path of None \<Rightarrow> Inl OSError | Some content \<Rightarrow> Inr (int (length content)))"

definition os_fstat_size :: "world \<Rightarrow> nat \<Rightarrow> error + int" where
  "os_fstat_size w fd =
     (case fdtab w fd of None \<Rightarrow> Inl OSError | Some path \<Rightarrow> os_stat_size w path)"

text \<open>
  \<^verbatim>\<open>mmap(fd, length, access=ACCESS_READ, offset=offset)\<close> of the standard library, on a
  regular file:
  \<^item> a negative length or offset raises \<^verbatim>\<open>OverflowError\<close>;
  \<^item> a length of 0 asks for the file up to its end: \<^verbatim>\<open>ValueError\<close> on an empty
    file or when the offset is not inside the file, else the length is the file size
    minus the offset;
  \<^item> a positive length that reaches past the end of the file raises \<^verbatim>\<open>ValueError\<close>
    ("mmap length is greater than file size": what the comment in the constructor is
    about);
  \<^item> the system call fails (\<^verbatim>\<open>mmap.error\<close>, an \<^verbatim>\<open>EnvironmentError\<close>) on an offset
    that is not a multiple of the allocation granularity and when the address space
    is exhausted;
  \<^item> otherwise the mapping holds exactly the bytes of the file from the offset on,
    in the computed length.
\<close>

definition py_mmap :: "int \<Rightarrow> world \<Rightarrow> nat \<Rightarrow> int \<Rightarrow> int \<Rightarrow> (error + string) \<times> world" where
  "py_mmap PAGESIZE w fd len offset =
     (if len < 0 \<or> offset < 0 then (Inl OverflowError, w)
      else case fdtab w fd of
        None \<Rightarrow> (Inl EnvironmentError, w)
      | Some path \<Rightarrow>
         (case files w path of
            None \<Rightarrow> (Inl EnvironmentError, w)
          | Some content \<Rightarrow>
             (let st_size = int (length content) in
              if len = 0 \<and> (st_size = 0 \<or> offset \<ge> st_size) then (Inl ValueError, w)
              else
                (let map_size = (if len = 0 then st_size - offset else len) in
                 if offset > st_size \<or> st_size - offset < map_size then (Inl ValueError, w)
                 else if offset mod PAGESIZE \<noteq> 0 \<or> vm_avail w < map_size
                   then (Inl EnvironmentError, w)
                 else
                   (Inr (take (nat map_size) (drop (nat offset) content)),
                    w\<lparr>mappings := (path, offset, map_size) # mappings w,
                      vm_avail := vm_avail w - map_size\<rparr>)))))"

text \<open>
  \<^verbatim>\<open>buffer(obj, offset, size)\<close> of Python 2: \<^verbatim>\<open>ValueError\<close> on a negative offset and
  on a negative size other than -1 (which stands for "to the end"); the view is cut
  to what the object holds.
\<close>

definition py_buffer :: "string \<Rightarrow> int \<Rightarrow> int \<Rightarrow> error + string" where
  "py_buffer obj offset sz =
     (if offset < 0 \<or> (sz < 0 \<and> sz \<noteq> - 1) then Inl ValueError
      else Inr (if sz = - 1 then drop (nat offset) obj
                else take (nat sz) (drop (nat offset) obj)))"

subsection \<open>MappedRegion\<close>

text \<open>
  The slots \<^verbatim>\<open>_b\<close>, \<^verbatim>\<open>_mf\<close>, \<^verbatim>\<open>_uc\<close>, \<^verbatim>\<open>_size\<close> and, with the compatibility
  layer only, \<^verbatim>\<open>_mfb\<close>. The class attribute \<^verbatim>\<open>_need_compat_layer\<close>
  (\<^verbatim>\<open>sys.version_info[1] < 6\<close>) is fixed by the runtime and is the first parameter of
  every function whose body depends on it.
\<close>

record MappedRegion =
  r_b :: int
  r_mf :: string
  r_uc :: int
  r_size :: int
  r_mfb :: "string option"

text \<open>
  \<^verbatim>\<open>
  def __init__(self, path, ofs, size, flags = 0):
      self._b = ofs
      self._size = 0
      self._uc = 0
      fd = os.open(path, os.O_RDONLY|getattr(os, 'O_BINARY', 0)|flags)
      try:
          kwargs = dict(access=ACCESS_READ, offset=ofs)
          corrected_size = size
          sizeofs = ofs
          if self._need_compat_layer:
              del(kwargs['offset'])
              corrected_size += ofs
              sizeofs = 0
          self._mf = mmap(fd, min(os.fstat(fd).st_size - sizeofs, corrected_size), **kwargs)
          self._size = len(self._mf)
          if self._need_compat_layer:
              self._mfb = buffer(self._mf, ofs, size)
      finally:
          os.close(fd)
  \<close>
  \<open>MappedRegion_try\<close> is the body of the \<^verbatim>\<open>try\<close>; the constructor closes the
  descriptor whatever the body did. The result is the new instance or the exception.
  An exception of \<^verbatim>\<open>buffer\<close> comes after the mapping was made; when the runtime
  collects the abandoned instance is not modelled, so the mapping stays in the world.
\<close>

definition MappedRegion_try ::
  "bool \<Rightarrow> int \<Rightarrow> world \<Rightarrow> nat \<Rightarrow> int \<Rightarrow> int \<Rightarrow> (error + MappedRegion) \<times> world" where
  "MappedRegion_try need_compat_layer PAGESIZE w fd ofs sz =
     (let corrected_size = (if need_compat_layer then sz + ofs else sz);
          sizeofs = (if need_compat_layer then 0 else ofs)
      in case os_fstat_size w fd of
        Inl e \<Rightarrow> (Inl e, w)
      | Inr st_size \<Rightarrow>
         (case py_mmap PAGESIZE w fd (min (st_size - sizeofs) corrected_size)
                 (if need_compat_layer then 0 else ofs) of
            (Inl e, w') \<Rightarrow> (Inl e, w')
          | (Inr mf, w') \<Rightarrow>
             (let self = \<lparr>r_b = ofs, r_mf = mf, r_uc = 0, r_size = int (length mf),
                          r_mfb = None\<rparr>
              in if need_compat_layer
                 then (case py_buffer mf ofs sz of
                         Inl e \<Rightarrow> (Inl e, w')
                       | Inr mfb \<Rightarrow> (Inr (self\<lparr>r_mfb := Some mfb\<rparr>), w'))
                 else (Inr self, w'))))"

definition MappedRegion_init ::
  "bool \<Rightarrow> int \<Rightarrow> world \<Rightarrow> string \<Rightarrow> int \<Rightarrow> int \<Rightarrow> int \<Rightarrow> (error + MappedRegion) \<times> world" where
  "MappedRegion_init need_compat_layer PAGESIZE w path ofs sz flags =
     (case os_open w path flags of
        (Inl e, w') \<Rightarrow> (Inl e, w')
      | (Inr fd, w') \<Rightarrow>
         (case MappedRegion_try need_compat_layer PAGESIZE w' fd ofs sz of
            (res, w'') \<Rightarrow> (res, os_close w'' fd)))"

text \<open>
  The interface. The methods \<^verbatim>\<open>size\<close>, \<^verbatim>\<open>ofs_end\<close>, \<^verbatim>\<open>buffer\<close> and
  \<^verbatim>\<open>includes_ofs\<close> are defined a second time under \<^verbatim>\<open>if _need_compat_layer\<close>.
  \<^verbatim>\<open>buffer\<close> returns \<open>None\<close> where the slot it reads was never assigned.
\<close>

definition MappedRegion_buffer :: "bool \<Rightarrow> MappedRegion \<Rightarrow> string option" where
  "MappedRegion_buffer need_compat_layer self =
     (if need_compat_layer then r_mfb self else Some (r_mf self))"

definition ofs_begin :: "MappedRegion \<Rightarrow> int" where
  "ofs_begin self = r_b self"

definition MappedRegion_size :: "bool \<Rightarrow> MappedRegion \<Rightarrow> int" where
  "MappedRegion_size need_compat_layer self =
     (if need_compat_layer then r_size self - r_b self else r_size self)"

definition MappedRegion_ofs_end :: "bool \<Rightarrow> MappedRegion \<Rightarrow> int" where
  "MappedRegion_ofs_end need_compat_layer self =
     (if need_compat_layer then r_size self else r_b self + r_size self)"

definition includes_ofs :: "bool \<Rightarrow> MappedRegion \<Rightarrow> int \<Rightarrow> bool" where
  "includes_ofs need_compat_layer self ofs =
     (if need_compat_layer then r_b self \<le> ofs \<and> ofs < r_size self
      else r_b self \<le> ofs \<and> ofs < r_b self + r_size self)"

definition usage_count :: "MappedRegion \<Rightarrow> int" where
  "usage_count self = r_uc self"

definition increment_usage_count :: "MappedRegion \<Rightarrow> MappedRegion" where
  "increment_usage_count self = self\<lparr>r_uc := r_uc self + 1\<rparr>"

text \<open>\<^verbatim>\<open>MemoryWindow.from_region\<close>: \<^verbatim>\<open>cls(region._b, region.size())\<close>.\<close>

definition from_region :: "bool \<Rightarrow> MappedRegion \<Rightarrow> MemoryWindow" where
  "from_region need_compat_layer region =
     MemoryWindow_init (r_b region) (MappedRegion_size need_compat_layer region)"

subsection \<open>MappedRegionList\<close>

text \<open>
  A list of regions with the slots \<^verbatim>\<open>_path\<close> and \<^verbatim>\<open>_file_size\<close>.
  \<^verbatim>\<open>
  def file_size(self):
      if self._file_size is None:
          self._file_size = os.stat(self._path).st_size
      return self._file_size
  \<close>
\<close>

record MappedRegionList =
  rl_path :: string
  rl_file_size :: "int option"
  rl_regions :: "MappedRegion list"

definition MappedRegionList_init :: "string \<Rightarrow> MappedRegionList" where
  "MappedRegionList_init p = \<lparr>rl_path = p, rl_file_size = None, rl_regions = []\<rparr>"

definition path :: "MappedRegionList \<Rightarrow> string" where
  "path self = rl_path self"

definition file_size :: "world \<Rightarrow> MappedRegionList \<Rightarrow> (error + int) \<times> MappedRegionList" where
  "file_size w self =
     (case rl_file_size self of
        None \<Rightarrow>
          (case os_stat_size w (rl_path self) of
             Inl e \<Rightarrow> (Inl e, self)
           | Inr n \<Rightarrow> (Inr n, self\<lparr>rl_file_size := Some n\<rparr>))
      | Some n \<Rightarrow> (Inr n, self))"

subsection \<open>A world to run the constructor in\<close>

text \<open>One file of ten bytes, no descriptor open above the standard three, nothing mapped.\<close>

definition example_world :: world where
  "example_world =
     \<lparr>files = [''data'' \<mapsto> ''0123456789''], fdtab = Map.empty, next_fd = 3,
      mappings = [], vm_avail = 2 ^ 32\<rparr>"

section \<open>Properties\<close>

subsection \<open>Facts about \<open>align_to_page\<close>\<close>

lemma align_down_eq: "align_to_page PAGESIZE num False = num - num mod PAGESIZE"
  by (simp add: align_to_page_def minus_mod_eq_div_mult)

lemma align_up_eq:
  "align_to_page PAGESIZE num True =
     (if num mod PAGESIZE = 0 then num else num - num mod PAGESIZE + PAGESIZE)"
proof -
  have "(num div PAGESIZE) * PAGESIZE = num - num mod PAGESIZE"
    by (simp add: minus_mod_eq_div_mult)
  then show ?thesis
    by (simp add: align_to_page_def Let_def)
qed

lemma atp_dvd: "PAGESIZE dvd align_to_page PAGESIZE num r"
  by (simp add: align_to_page_def Let_def)

lemma atp_fix: "PAGESIZE dvd num \<Longrightarrow> align_to_page PAGESIZE num r = num"
  by (cases r) (auto simp add: align_down_eq align_up_eq)

lemma atp_down_le: "0 < PAGESIZE \<Longrightarrow> align_to_page PAGESIZE num False \<le> num"
  by (simp add: align_down_eq)

lemma atp_down_gt: "0 < PAGESIZE \<Longrightarrow> num < align_to_page PAGESIZE num False + PAGESIZE"
  by (simp add: align_down_eq)

lemma atp_up_ge: "0 < PAGESIZE \<Longrightarrow> num \<le> align_to_page PAGESIZE num True"
proof -
  assume p: "0 < PAGESIZE"
  then have "num mod PAGESIZE < PAGESIZE" by simp
  then show ?thesis by (simp add: align_up_eq)
qed

lemma atp_up_lt: "0 < PAGESIZE \<Longrightarrow> align_to_page PAGESIZE num True - num < PAGESIZE"
proof -
  assume p: "0 < PAGESIZE"
  then have "num mod PAGESIZE \<noteq> 0 \<longrightarrow> 0 < num mod PAGESIZE"
    by (simp add: less_le)
  then show ?thesis using p by (auto simp add: align_up_eq)
qed

lemma atp_down_greatest:
  assumes p: "0 < PAGESIZE" and d: "PAGESIZE dvd m" and le: "m \<le> num"
  shows "m \<le> align_to_page PAGESIZE num False"
proof -
  have "m div PAGESIZE \<le> num div PAGESIZE"
    using p le by (rule zdiv_mono1[rotated])
  then have "(m div PAGESIZE) * PAGESIZE \<le> (num div PAGESIZE) * PAGESIZE"
    using p by (simp add: mult_right_mono)
  moreover have "(m div PAGESIZE) * PAGESIZE = m"
    using d by simp
  ultimately show ?thesis
    by (simp add: align_to_page_def)
qed

lemma atp_up_least:
  assumes p: "0 < PAGESIZE" and d: "PAGESIZE dvd m" and le: "num \<le> m"
  shows "align_to_page PAGESIZE num True \<le> m"
proof (cases "num mod PAGESIZE = 0")
  case True
  then show ?thesis using le by (simp add: align_up_eq)
next
  case False
  have m: "(m div PAGESIZE) * PAGESIZE = m"
    using d by simp
  have r: "0 < num mod PAGESIZE"
    using p False by (simp add: less_le)
  have "(num div PAGESIZE) * PAGESIZE < (m div PAGESIZE) * PAGESIZE"
    using r le m by (simp add: minus_mod_eq_div_mult [symmetric])
  then have "num div PAGESIZE < m div PAGESIZE"
    using p by (simp add: mult_less_cancel_right)
  then have "num div PAGESIZE + 1 \<le> m div PAGESIZE"
    by simp
  then have "(num div PAGESIZE + 1) * PAGESIZE \<le> (m div PAGESIZE) * PAGESIZE"
    using p by (simp only: mult_right_mono less_imp_le)
  then have "(num div PAGESIZE) * PAGESIZE + PAGESIZE \<le> m"
    using m by (simp add: distrib_right)
  then show ?thesis
    using False by (simp add: align_to_page_def Let_def minus_mod_eq_div_mult [symmetric])
qed

subsection \<open>Page alignment and window geometry\<close>

text \<open>
  Claim C2. With a positive page size, \<open>align_to_page num False\<close> is the largest
  multiple of the page size that is at most \<open>num\<close>: it is a multiple, it is at most
  \<open>num\<close>, \<open>num\<close> is less than one page above it, and every multiple that is at most
  \<open>num\<close> is at most it. \<open>align_to_page num True\<close> is the smallest multiple that is at
  least \<open>num\<close>: it is a multiple, at least \<open>num\<close>, less than one page above \<open>num\<close>,
  and at most every multiple that is at least \<open>num\<close>; on a \<open>num\<close> that is a multiple
  already it is \<open>num\<close>. This holds for every integer \<open>num\<close>, so for every \<open>num \<ge> 0\<close>.
\<close>

theorem align_to_page_bounds:
  assumes "0 < PAGESIZE"
  shows "PAGESIZE dvd align_to_page PAGESIZE num False
       \<and> align_to_page PAGESIZE num False \<le> num
       \<and> num < align_to_page PAGESIZE num False + PAGESIZE
       \<and> (\<forall>m. PAGESIZE dvd m \<and> m \<le> num \<longrightarrow> m \<le> align_to_page PAGESIZE num False)
       \<and> PAGESIZE dvd align_to_page PAGESIZE num True
       \<and> num \<le> align_to_page PAGESIZE num True
       \<and> align_to_page PAGESIZE num True - num < PAGESIZE
       \<and> (\<forall>m. PAGESIZE dvd m \<and> num \<le> m \<longrightarrow> align_to_page PAGESIZE num True \<le> m)
       \<and> (PAGESIZE dvd num \<longrightarrow> align_to_page PAGESIZE num True = num)"
  using assms
  by (simp add: atp_dvd atp_down_le atp_down_gt atp_down_greatest atp_up_ge atp_up_lt
        atp_up_least atp_fix)

theorem align_to_page_bounds_witness:
  "(0::int) < 4096
   \<and> align_to_page 4096 5000 False = 4096 \<and> align_to_page 4096 5000 True = 8192
   \<and> ((4096::int) dvd 4096 \<and> (4096::int) \<le> 5000) \<and> (4096::int) \<le> align_to_page 4096 5000 False
   \<and> ((4096::int) dvd 8192 \<and> (5000::int) \<le> 8192) \<and> align_to_page 4096 5000 True \<le> 8192
   \<and> (4096::int) dvd 8192 \<and> align_to_page 4096 8192 True = 8192"
proof -
  have p: "(0::int) < 4096" by simp
  have d: "(4096::int) dvd 8192" by simp
  have a: "align_to_page 4096 5000 False = 4096" "align_to_page 4096 5000 True = 8192"
    by (simp_all add: align_to_page_def)
  from align_to_page_bounds [OF p, of 8192] d
  have "align_to_page 4096 8192 True = 8192" by blast
  moreover from align_to_page_bounds [OF p, of 5000]
  have "(4096::int) \<le> align_to_page 4096 5000 False" "align_to_page 4096 5000 True \<le> 8192"
    by simp_all
  ultimately show ?thesis using a by simp
qed

text \<open>
  Claim C1. After \<open>align\<close> the window starts at or before the old start and ends at or
  after the old end, so its byte range contains the old one, and its offset and size
  are multiples of the page size. No sign condition on the offset or the size is needed.
  The witness is the window (10, 100) of the specification, which becomes (0, 4096).
\<close>

theorem align_contains_original:
  assumes "0 < PAGESIZE"
  shows "w_ofs (align PAGESIZE w) \<le> w_ofs w
       \<and> ofs_end w \<le> ofs_end (align PAGESIZE w)
       \<and> PAGESIZE dvd w_ofs (align PAGESIZE w)
       \<and> PAGESIZE dvd w_size (align PAGESIZE w)"
proof -
  let ?nofs = "align_to_page PAGESIZE (w_ofs w) False"
  let ?s1 = "w_size w + (w_ofs w - ?nofs)"
  have o: "w_ofs (align PAGESIZE w) = ?nofs"
    by (simp add: align_def Let_def)
  have s: "w_size (align PAGESIZE w) = align_to_page PAGESIZE ?s1 True"
    by (simp add: align_def Let_def)
  have "?nofs \<le> w_ofs w"
    using assms by (rule atp_down_le)
  moreover have "?s1 \<le> align_to_page PAGESIZE ?s1 True"
    using assms by (rule atp_up_ge)
  ultimately show ?thesis
    by (simp add: o s ofs_end_def atp_dvd)
qed

theorem align_contains_original_witness:
  "(0::int) < 4096
   \<and> align 4096 (MemoryWindow_init 10 100) = MemoryWindow_init 0 4096
   \<and> w_ofs (align 4096 (MemoryWindow_init 10 100)) \<le> 10
   \<and> (110::int) \<le> ofs_end (align 4096 (MemoryWindow_init 10 100))"
proof -
  have p: "(0::int) < 4096" by simp
  have e: "align 4096 (MemoryWindow_init 10 100) = MemoryWindow_init 0 4096"
    by (simp add: align_def align_to_page_def MemoryWindow_init_def Let_def)
  show ?thesis
    using p e align_contains_original [OF p, of "MemoryWindow_init 10 100"]
    by (simp add: MemoryWindow_init_def ofs_end_def)
qed

text \<open>
  Claim C9. \<open>align\<close> is idempotent: aligning an aligned window changes neither field.
\<close>

theorem align_idempotent:
  assumes "0 < PAGESIZE"
  shows "align PAGESIZE (align PAGESIZE w) = align PAGESIZE w"
proof -
  let ?a = "align PAGESIZE w"
  have d: "PAGESIZE dvd w_ofs ?a" "PAGESIZE dvd w_size ?a"
    by (simp_all add: align_def Let_def atp_dvd)
  have "align_to_page PAGESIZE (w_ofs ?a) False = w_ofs ?a"
    using d(1) by (rule atp_fix)
  moreover have "align_to_page PAGESIZE (w_size ?a) True = w_size ?a"
    using d(2) by (rule atp_fix)
  ultimately show ?thesis
    by (simp add: align_def [of PAGESIZE ?a] Let_def)
qed

theorem align_idempotent_witness:
  "(0::int) < 4096
   \<and> align 4096 (MemoryWindow_init 5000 2000) = MemoryWindow_init 4096 4096
   \<and> align 4096 (align 4096 (MemoryWindow_init 5000 2000)) = MemoryWindow_init 4096 4096"
proof -
  have p: "(0::int) < 4096" by simp
  have e: "align 4096 (MemoryWindow_init 5000 2000) = MemoryWindow_init 4096 4096"
    by (simp add: align_def align_to_page_def MemoryWindow_init_def Let_def)
  show ?thesis
    using p e align_idempotent [OF p, of "MemoryWindow_init 5000 2000"] by simp
qed

text \<open>
  Claim C3. When the neighbour ends at or before the start of the window,
  \<open>extend_left_to\<close> keeps the right edge \<open>ofs_end\<close>, the new size is the minimum of
  the gap plus the old size and \<open>max_size\<close>, the new offset is the right edge minus the
  new size, and a size that was at most \<open>max_size\<close> does not shrink.
\<close>

theorem extend_left_to_keeps_right_edge:
  assumes "ofs_end window \<le> w_ofs self"
  shows "ofs_end (extend_left_to self window max_size) = ofs_end self
       \<and> w_size (extend_left_to self window max_size)
           = min ((w_ofs self - ofs_end window) + w_size self) max_size
       \<and> w_ofs (extend_left_to self window max_size)
           = ofs_end self - w_size (extend_left_to self window max_size)
       \<and> (w_size self \<le> max_size \<longrightarrow> w_size self \<le> w_size (extend_left_to self window max_size))"
  using assms by (simp add: extend_left_to_def ofs_end_def Let_def)

theorem extend_left_to_keeps_right_edge_witness:
  "ofs_end (MemoryWindow_init 0 4096) \<le> w_ofs (MemoryWindow_init 8192 4096)
   \<and> (4096::int) \<le> 6144
   \<and> extend_left_to (MemoryWindow_init 8192 4096) (MemoryWindow_init 0 4096) 6144
       = MemoryWindow_init 6144 6144
   \<and> ofs_end (extend_left_to (MemoryWindow_init 8192 4096) (MemoryWindow_init 0 4096) 6144)
       = 12288"
proof -
  have h: "ofs_end (MemoryWindow_init 0 4096) \<le> w_ofs (MemoryWindow_init 8192 4096)"
    by (simp add: ofs_end_def MemoryWindow_init_def)
  have e: "extend_left_to (MemoryWindow_init 8192 4096) (MemoryWindow_init 0 4096) 6144
             = MemoryWindow_init 6144 6144"
    by (simp add: extend_left_to_def ofs_end_def MemoryWindow_init_def Let_def)
  show ?thesis
    using h e extend_left_to_keeps_right_edge [OF h, of 6144]
    by (simp add: ofs_end_def MemoryWindow_init_def)
qed

text \<open>
  Claim C4. \<open>extend_right_to\<close> never changes the offset; the new size is
  the minimum of the old size plus the gap to the neighbour's offset and \<open>max_size\<close>,
  hence at most \<open>max_size\<close>. The window (4096, 2048) with a neighbour at 8192 and
  \<open>max_size\<close> 8192 becomes (4096, 4096), whatever the neighbour's size \<open>n\<close>.
\<close>

theorem extend_right_to_keeps_offset:
  "w_ofs (extend_right_to self window max_size) = w_ofs self
   \<and> w_size (extend_right_to self window max_size)
       = min (w_size self + (w_ofs window - ofs_end self)) max_size
   \<and> w_size (extend_right_to self window max_size) \<le> max_size
   \<and> extend_right_to (MemoryWindow_init 4096 2048) (MemoryWindow_init 8192 n) 8192
       = MemoryWindow_init 4096 4096"
  by (simp add: extend_right_to_def ofs_end_def MemoryWindow_init_def)

subsection \<open>Facts about the library calls and the constructor\<close>

lemmas init_defs = MappedRegion_init_def MappedRegion_try_def os_open_def os_close_def
  os_fstat_size_def os_stat_size_def py_mmap_def py_buffer_def example_world_def Let_def

lemma py_mmap_error_world:
  "py_mmap PAGESIZE w fd len offset = (Inl e, w') \<Longrightarrow> w' = w"
  by (auto simp add: py_mmap_def Let_def split: if_splits option.splits)

lemma os_open_fstat:
  assumes "os_open w p flags = (Inr fd, w')"
  shows "\<exists>content. files w p = Some content \<and> os_fstat_size w' fd = Inr (int (length content))
           \<and> fdtab w' fd = Some p \<and> files w' = files w \<and> mappings w' = mappings w"
  using assms
  by (auto simp add: os_open_def os_fstat_size_def os_stat_size_def split: option.splits)

lemma os_open_error:
  "os_open w p flags = (Inl e, w') \<Longrightarrow> w' = w \<and> files w p = None"
  by (auto simp add: os_open_def split: option.splits)

lemma py_mmap_Inr:
  assumes "py_mmap PAGESIZE w fd len offset = (Inr mf, w')"
    and "os_fstat_size w fd = Inr st_size"
  shows "int (length mf) = (if len = 0 then st_size - offset else len)
       \<and> (len = 0 \<longrightarrow> offset < st_size) \<and> 0 \<le> len \<and> 0 \<le> offset
       \<and> offset + int (length mf) \<le> st_size"
  using assms
  by (auto simp add: py_mmap_def os_fstat_size_def os_stat_size_def Let_def
        split: if_splits option.splits)

lemma py_buffer_Inr: "py_buffer obj offset sz = Inr b \<Longrightarrow> 0 \<le> offset"
  by (auto simp add: py_buffer_def split: if_splits)

lemma try_size:
  assumes t: "MappedRegion_try c PAGESIZE w fd ofs sz = (Inr r, w')"
    and st: "os_fstat_size w fd = Inr st_size"
    and sz: "0 < sz"
  shows "MappedRegion_size c r = min (st_size - ofs) sz \<and> ofs_begin r = ofs"
proof (cases c)
  case False
  from t st False obtain mf where
    m: "py_mmap PAGESIZE w fd (min (st_size - ofs) sz) ofs = (Inr mf, w')"
    and r: "r = \<lparr>r_b = ofs, r_mf = mf, r_uc = 0, r_size = int (length mf), r_mfb = None\<rparr>"
    by (auto simp add: MappedRegion_try_def Let_def split: sum.splits prod.splits)
  from py_mmap_Inr [OF m st] sz
  have "int (length mf) = min (st_size - ofs) sz"
    by (auto split: if_splits)
  then show ?thesis
    using False r by (simp add: MappedRegion_size_def ofs_begin_def)
next
  case True
  from t st True obtain mf mfb where
    m: "py_mmap PAGESIZE w fd (min st_size (sz + ofs)) 0 = (Inr mf, w')"
    and b: "py_buffer mf ofs sz = Inr mfb"
    and r: "r = \<lparr>r_b = ofs, r_mf = mf, r_uc = 0, r_size = int (length mf), r_mfb = Some mfb\<rparr>"
    by (auto simp add: MappedRegion_try_def Let_def split: sum.splits prod.splits)
  have o: "0 \<le> ofs"
    using b by (rule py_buffer_Inr)
  have "0 < min st_size (sz + ofs) \<or> 0 < st_size"
    using py_mmap_Inr [OF m st] by (cases "min st_size (sz + ofs) = 0") auto
  then have "min st_size (sz + ofs) \<noteq> 0"
    using sz o by (simp add: min_def split: if_splits)
  then have "int (length mf) = min st_size (sz + ofs)"
    using py_mmap_Inr [OF m st] by simp
  then show ?thesis
    using True r by (simp add: MappedRegion_size_def ofs_begin_def)
qed

lemma init_Inr:
  assumes "MappedRegion_init c PAGESIZE w p ofs sz flags = (Inr r, w')"
  shows "\<exists>fd w1 w2 content. os_open w p flags = (Inr fd, w1)
           \<and> MappedRegion_try c PAGESIZE w1 fd ofs sz = (Inr r, w2)
           \<and> files w p = Some content
           \<and> os_fstat_size w1 fd = Inr (int (length content))"
proof -
  from assms obtain fd w1 w2 where
    o: "os_open w p flags = (Inr fd, w1)"
    and t: "MappedRegion_try c PAGESIZE w1 fd ofs sz = (Inr r, w2)"
    by (auto simp add: MappedRegion_init_def split: sum.splits prod.splits)
  from os_open_fstat [OF o] t o show ?thesis by blast
qed

lemma init_fst_Inr:
  assumes "fst (MappedRegion_init c PAGESIZE w p ofs sz flags) = Inr r"
  shows "\<exists>w'. MappedRegion_init c PAGESIZE w p ofs sz flags = (Inr r, w')"
  using assms by (cases "MappedRegion_init c PAGESIZE w p ofs sz flags") simp

lemma os_close_mappings: "mappings (os_close w fd) = mappings w"
  by (simp add: os_close_def)

lemma try_error_mappings:
  assumes "MappedRegion_try False PAGESIZE w fd ofs sz = (Inl e, w')"
  shows "mappings w' = mappings w"
  using assms
  by (auto simp add: MappedRegion_try_def Let_def
        split: sum.splits prod.splits dest: py_mmap_error_world)

lemma try_beyond_end:
  assumes "os_fstat_size w fd = Inr st_size" and "st_size < ofs"
  shows "isl (fst (MappedRegion_try False PAGESIZE w fd ofs sz))"
proof -
  have "min (st_size - ofs) sz < 0"
    using assms(2) by (simp add: min_less_iff_disj)
  then have "py_mmap PAGESIZE w fd (min (st_size - ofs) sz) ofs = (Inl OverflowError, w)"
    by (simp add: py_mmap_def)
  then show ?thesis
    using assms(1) by (simp add: MappedRegion_try_def)
qed

subsection \<open>Creating a region\<close>

text \<open>
  Claim C5, as amended. Whenever the constructor returns a region for a requested size
  greater than 0, on a file of \<open>length content\<close> bytes, the size of the region is the
  minimum of the file size minus the offset and the requested size, so the region ends
  at or before the end of the file, and its first byte is at the offset; at offset 0 and
  with a requested size above the file size the region has the size of the file. This
  holds with and without the compatibility layer.
\<close>

theorem create_maps_within_file:
  assumes "fst (MappedRegion_init need_compat_layer PAGESIZE w p ofs sz flags) = Inr r"
    and "files w p = Some content"
    and "0 < sz"
  shows "MappedRegion_size need_compat_layer r = min (int (length content) - ofs) sz
       \<and> ofs_begin r = ofs
       \<and> (ofs = 0 \<and> int (length content) < sz \<longrightarrow>
            MappedRegion_size need_compat_layer r = int (length content))"
proof -
  from init_fst_Inr [OF assms(1)] obtain w' where
    i: "MappedRegion_init need_compat_layer PAGESIZE w p ofs sz flags = (Inr r, w')" ..
  from init_Inr [OF i] assms(2) obtain fd w1 w2 where
    t: "MappedRegion_try need_compat_layer PAGESIZE w1 fd ofs sz = (Inr r, w2)"
    and st: "os_fstat_size w1 fd = Inr (int (length content))"
    by auto
  from try_size [OF t st assms(3)] show ?thesis
    by auto
qed

theorem create_maps_within_file_witness:
  "fst (MappedRegion_init False 4096 example_world ''data'' 0 20 0)
     = Inr \<lparr>r_b = 0, r_mf = ''0123456789'', r_uc = 0, r_size = 10, r_mfb = None\<rparr>
   \<and> files example_world ''data'' = Some ''0123456789''
   \<and> (0::int) < 20
   \<and> ((0::int) = 0 \<and> int (length ''0123456789'') < 20)
   \<and> MappedRegion_size False
        \<lparr>r_b = 0, r_mf = ''0123456789'', r_uc = 0, r_size = 10, r_mfb = None\<rparr> = 10"
proof -
  have h1: "fst (MappedRegion_init False 4096 example_world ''data'' 0 20 0)
     = Inr \<lparr>r_b = 0, r_mf = ''0123456789'', r_uc = 0, r_size = 10, r_mfb = None\<rparr>"
    by (simp add: init_defs)
  have h2: "files example_world ''data'' = Some ''0123456789''"
    by (simp add: example_world_def)
  have h3: "(0::int) < 20" by simp
  from create_maps_within_file [OF h1 h2 h3]
  have "MappedRegion_size False
        \<lparr>r_b = 0, r_mf = ''0123456789'', r_uc = 0, r_size = 10, r_mfb = None\<rparr> = 10"
    by simp
  with h1 h2 show ?thesis by simp
qed

text \<open>
  Claim C5 as it is written also covers a requested size of 0, and fails there: on the
  file of ten bytes, offset 0 and size 0 give \<^verbatim>\<open>mmap(fd, min(10 - 0, 0), ...)\<close>, a length
  of 0, for which \<^verbatim>\<open>mmap\<close> maps the whole file. The constructor succeeds with a
  region of 10 bytes, where the claim says \<open>min (10 - 0) 0 = 0\<close>.
\<close>

theorem create_size_zero_counterexample:
  "files example_world ''data'' = Some ''0123456789''
   \<and> (0::int) \<le> int (length ''0123456789'')
   \<and> map_sum id (MappedRegion_size False)
        (fst (MappedRegion_init False 4096 example_world ''data'' 0 0 0)) = Inr 10
   \<and> min (int (length ''0123456789'') - 0) 0 \<noteq> (10::int)"
  by (simp add: init_defs MappedRegion_size_def)

text \<open>
  Claim C6, as amended. Without the compatibility layer, the constructor raises
  whenever the offset is beyond the end of the file (the length handed to \<^verbatim>\<open>mmap\<close> is
  negative then), and whenever the constructor raises, the live mappings are the ones
  from before the call: no mapping is retained. The exception is one of Python's own;
  the module defines no error class.
\<close>

theorem create_fails_beyond_end_of_file:
  "(files w p = Some content \<and> int (length content) < ofs \<longrightarrow>
      isl (fst (MappedRegion_init False PAGESIZE w p ofs sz flags)))
   \<and> (isl (fst (MappedRegion_init False PAGESIZE w p ofs sz flags)) \<longrightarrow>
      mappings (snd (MappedRegion_init False PAGESIZE w p ofs sz flags)) = mappings w)"
proof (intro conjI impI)
  assume a: "files w p = Some content \<and> int (length content) < ofs"
  then obtain fd w1 where o: "os_open w p flags = (Inr fd, w1)"
    by (auto simp add: os_open_def)
  from os_open_fstat [OF o] a
  have st: "os_fstat_size w1 fd = Inr (int (length content))" by auto
  from try_beyond_end [OF st, of ofs PAGESIZE sz] a
  have "isl (fst (MappedRegion_try False PAGESIZE w1 fd ofs sz))" by simp
  then show "isl (fst (MappedRegion_init False PAGESIZE w p ofs sz flags))"
    using o by (cases "MappedRegion_try False PAGESIZE w1 fd ofs sz")
      (simp add: MappedRegion_init_def)
next
  assume f: "isl (fst (MappedRegion_init False PAGESIZE w p ofs sz flags))"
  show "mappings (snd (MappedRegion_init False PAGESIZE w p ofs sz flags)) = mappings w"
  proof (cases "os_open w p flags")
    case (Pair res w1)
    show ?thesis
    proof (cases res)
      case (Inl e)
      with Pair os_open_error [of w p flags e w1] show ?thesis
        by (simp add: MappedRegion_init_def)
    next
      case (Inr fd)
      with Pair have o: "os_open w p flags = (Inr fd, w1)" by simp
      obtain res2 w2 where t: "MappedRegion_try False PAGESIZE w1 fd ofs sz = (res2, w2)"
        by (cases "MappedRegion_try False PAGESIZE w1 fd ofs sz") auto
      from f o t obtain e where "res2 = Inl e"
        by (cases res2) (auto simp add: MappedRegion_init_def)
      with t have "mappings w2 = mappings w1"
        using try_error_mappings by blast
      moreover from os_open_fstat [OF o] have "mappings w1 = mappings w" by blast
      ultimately show ?thesis
        using o t by (simp add: MappedRegion_init_def os_close_mappings)
    qed
  qed
qed

theorem create_fails_beyond_end_of_file_witness:
  "(files example_world ''data'' = Some ''0123456789'' \<and> int (length ''0123456789'') < 4096)
   \<and> fst (MappedRegion_init False 4096 example_world ''data'' 4096 20 0) = Inl OverflowError
   \<and> isl (fst (MappedRegion_init False 4096 example_world ''data'' 4096 20 0))
   \<and> mappings (snd (MappedRegion_init False 4096 example_world ''data'' 4096 20 0)) = []"
proof -
  have h: "files example_world ''data'' = Some ''0123456789'' \<and> int (length ''0123456789'') < 4096"
    by (simp add: example_world_def)
  have e: "fst (MappedRegion_init False 4096 example_world ''data'' 4096 20 0) = Inl OverflowError"
    by (simp add: init_defs)
  have m: "mappings example_world = []"
    by (simp add: example_world_def)
  from create_fails_beyond_end_of_file
         [of example_world "''data''" "''0123456789''" 4096 4096 20 0] h
  have "isl (fst (MappedRegion_init False 4096 example_world ''data'' 4096 20 0))"
    and "mappings (snd (MappedRegion_init False 4096 example_world ''data'' 4096 20 0))
           = mappings example_world"
    by blast+
  with h e m show ?thesis by simp
qed

text \<open>
  Claim C6 as it is written also says that a zero-length request fails. It does not:
  size 0 at offset 0 on the file of ten bytes returns a region of all ten bytes, and the
  mapping is live afterwards.
\<close>

theorem create_zero_length_succeeds_counterexample:
  "fst (MappedRegion_init False 4096 example_world ''data'' 0 0 0)
     = Inr \<lparr>r_b = 0, r_mf = ''0123456789'', r_uc = 0, r_size = 10, r_mfb = None\<rparr>
   \<and> mappings (snd (MappedRegion_init False 4096 example_world ''data'' 0 0 0))
     = [(''data'', 0, 10)]"
  by (simp add: init_defs)

subsection \<open>Reading a region\<close>

text \<open>
  Claim C8. \<open>includes_ofs\<close> is true exactly for the offsets from the first byte of
  the region up to, and not including, the first byte plus the size, where the size
  is what \<^verbatim>\<open>size()\<close> returns; with and without the compatibility layer.
\<close>

theorem includes_ofs_iff_in_range:
  "includes_ofs need_compat_layer self ofs
     = (ofs_begin self \<le> ofs \<and> ofs < ofs_begin self + MappedRegion_size need_compat_layer self)"
  by (simp add: includes_ofs_def ofs_begin_def MappedRegion_size_def)

text \<open>
  Claim C10. \<open>increment_usage_count\<close> takes no argument and adds exactly 1 to the
  usage count; the first byte, the size, the mapping and the buffer of the region are
  the same afterwards.
\<close>

theorem increment_usage_count_adds_one:
  "usage_count (increment_usage_count self) = usage_count self + 1
   \<and> ofs_begin (increment_usage_count self) = ofs_begin self
   \<and> MappedRegion_size need_compat_layer (increment_usage_count self)
       = MappedRegion_size need_compat_layer self
   \<and> MappedRegion_buffer need_compat_layer (increment_usage_count self)
       = MappedRegion_buffer need_compat_layer self
   \<and> increment_usage_count self = self\<lparr>r_uc := r_uc self + 1\<rparr>
   \<and> r_b (increment_usage_count self) = r_b self
   \<and> r_size (increment_usage_count self) = r_size self
   \<and> r_mf (increment_usage_count self) = r_mf self
   \<and> r_mfb (increment_usage_count self) = r_mfb self"
  by (simp add: increment_usage_count_def usage_count_def ofs_begin_def
        MappedRegion_size_def MappedRegion_buffer_def)

subsection \<open>The cached file size\<close>

text \<open>
  Claim C7. When a call of \<open>file_size\<close> succeeds with \<open>n\<close>, the list it leaves
  behind holds \<open>n\<close> as its cached size, and a call on that list returns \<open>n\<close> and the
  same list in every world \<open>w'\<close>, whatever became of the file; when nothing was cached
  before the call, \<open>n\<close> is the size the file system reported. In the witness the
  second call runs after the file was deleted, where a new query would raise, and
  after the file shrank to four bytes.
\<close>

theorem file_size_is_cached:
  assumes "file_size w self = (Inr n, self')"
  shows "rl_file_size self' = Some n
       \<and> file_size w' self' = (Inr n, self')
       \<and> (rl_file_size self = None \<longrightarrow> os_stat_size w (rl_path self) = Inr n)"
  using assms
  by (auto simp add: file_size_def split: option.splits sum.splits)

theorem file_size_is_cached_witness:
  "file_size example_world (MappedRegionList_init ''data'')
     = (Inr 10, \<lparr>rl_path = ''data'', rl_file_size = Some 10, rl_regions = []\<rparr>)
   \<and> rl_file_size (MappedRegionList_init ''data'') = None
   \<and> os_stat_size (example_world\<lparr>files := Map.empty\<rparr>) ''data'' = Inl OSError
   \<and> file_size (example_world\<lparr>files := Map.empty\<rparr>)
        \<lparr>rl_path = ''data'', rl_file_size = Some 10, rl_regions = []\<rparr>
     = (Inr 10, \<lparr>rl_path = ''data'', rl_file_size = Some 10, rl_regions = []\<rparr>)
   \<and> file_size (example_world\<lparr>files := [''data'' \<mapsto> ''0123'']\<rparr>)
        \<lparr>rl_path = ''data'', rl_file_size = Some 10, rl_regions = []\<rparr>
     = (Inr 10, \<lparr>rl_path = ''data'', rl_file_size = Some 10, rl_regions = []\<rparr>)"
proof -
  have h: "file_size example_world (MappedRegionList_init ''data'')
     = (Inr 10, \<lparr>rl_path = ''data'', rl_file_size = Some 10, rl_regions = []\<rparr>)"
    by (simp add: file_size_def MappedRegionList_init_def os_stat_size_def example_world_def)
  have n: "rl_file_size (MappedRegionList_init ''data'') = None"
    by (simp add: MappedRegionList_init_def)
  have s: "os_stat_size (example_world\<lparr>files := Map.empty\<rparr>) ''data'' = Inl OSError"
    by (simp add: os_stat_size_def)
  from file_size_is_cached [OF h, of "example_world\<lparr>files := Map.empty\<rparr>"]
       file_size_is_cached [OF h, of "example_world\<lparr>files := [''data'' \<mapsto> ''0123'']\<rparr>"]
       h n s
  show ?thesis by simp
qed

end
